theory Spec2Isabelle
  imports Complex_Main "HOL-Library.Sublist"
begin

section \<open>Data model\<close>

text \<open>
  The calculator of the 6-DOF arm is the TypeScript function \<open>performCalculations\<close>.
  Its interfaces become records. A TypeScript \<open>number\<close> is modelled as a real number:
  arithmetic is exact, and rounding, infinities and NaN are outside the model. A second
  model, in which every operation is rounded, follows for the one claim that exact
  arithmetic would overstate.
  The field \<open>length\<close> of a link is called \<open>length_link\<close>, since \<open>length\<close> is
  the length of a HOL list.
\<close>

record Link =
  length_link :: real
  radius :: real

record Motor =
  mass :: real
  bodyLength :: real
  pivotPosition :: real
  rpm :: real
  gearRatio :: real
  safetyFactor :: real

record InputData =
  m_payload :: real
  density :: real
  links :: "Link list"
  motors :: "Motor list"

record MotorResult =
  T_total :: real
  T_sf :: real
  T_before :: real
  T_before_sf :: real
  P :: real
  P_sf :: real

text \<open>The return type \<open>MotorResult[] | { error: string }\<close>.\<close>

datatype Output = Results "MotorResult list" | ErrorObject string

section \<open>The calculation\<close>

text \<open>
  The template literals print \<open>i + 1\<close> in decimal.
\<close>

definition digit_char :: "nat \<Rightarrow> char" where
  "digit_char n = ''0123456789'' ! n"

fun string_of_nat :: "nat \<Rightarrow> string" where
  "string_of_nat n =
     (if n < 10 then [digit_char n]
      else string_of_nat (n div 10) @ [digit_char (n mod 10)])"

text \<open>
  The loop \<open>for (let i = 0; i < 6; i++)\<close> that validates the arrays. The result
  \<open>Some msg\<close> stands for \<open>throw new Error(msg)\<close>, \<open>None\<close> for the loop running to
  its end. The parameter \<open>rpms\<close> is the local array \<open>rpm\<close> of the source.
\<close>

function validate_arrays ::
  "nat \<Rightarrow> real list \<Rightarrow> real list \<Rightarrow> real list \<Rightarrow> real list \<Rightarrow> real list \<Rightarrow>
   real list \<Rightarrow> real list \<Rightarrow> real list \<Rightarrow> string option" where
  "validate_arrays i L r m_motor a M rpms R SF =
     (if i < 6 then
        if L ! i \<le> 0 then
          Some (''Link '' @ string_of_nat (i + 1) @ '' length must be positive'')
        else if r ! i \<le> 0 then
          Some (''Link '' @ string_of_nat (i + 1) @ '' radius must be positive'')
        else if m_motor ! i < 0 then
          Some (''Motor '' @ string_of_nat (i + 1) @ '' mass cannot be negative'')
        else if a ! i < 0 then
          Some (''Motor '' @ string_of_nat (i + 1) @ '' body length cannot be negative'')
        else if M ! i < 0 then
          Some (''Motor '' @ string_of_nat (i + 1) @ '' pivot position cannot be negative'')
        else if rpms ! i < 0 then
          Some (''Motor '' @ string_of_nat (i + 1) @ '' RPM cannot be negative'')
        else if R ! i < 0 then
          Some (''Motor '' @ string_of_nat (i + 1) @ '' gear ratio cannot be negative'')
        else if SF ! i < 1 then
          Some (''Motor '' @ string_of_nat (i + 1) @ '' safety factor must be at least 1'')
        else validate_arrays (i + 1) L r m_motor a M rpms R SF
      else None)"
  by pat_completeness auto
termination
  by (relation "measure (\<lambda>(i, _). 6 - i)") auto

declare validate_arrays.simps [simp del]

text \<open>
  An assignment \<open>S[i] = v\<close>: inside the array it overwrites, at \<open>i = S.length\<close> it
  extends the array by one element. The source writes at no other index.
\<close>

definition array_set :: "real list \<Rightarrow> nat \<Rightarrow> real \<Rightarrow> real list" where
  "array_set xs i v = (if i < length xs then xs[i := v] else xs @ [v])"

text \<open>The loop \<open>for (let i = 1; i < 6; i++) S[i] = S[i - 1] + L[i]\<close>.\<close>

function joint_positions :: "nat \<Rightarrow> real list \<Rightarrow> real list \<Rightarrow> real list" where
  "joint_positions i L S =
     (if i < 6 then joint_positions (i + 1) L (array_set S i (S ! (i - 1) + L ! i))
      else S)"
  by pat_completeness auto
termination
  by (relation "measure (\<lambda>(i, _). 6 - i)") auto

declare joint_positions.simps [simp del]

text \<open>
  The six blocks \<open>// Motor 6\<close> to \<open>// Motor 1\<close> of the source, each with the
  constants it declares, in the source's order; the value of a block is the object it pushes
  onto \<open>motorResults\<close>. The parameters are the local arrays and constants the
  blocks read (\<open>rpms\<close> is the array \<open>rpm\<close>).
\<close>

definition motor6 ::
  "real \<Rightarrow> real list \<Rightarrow> real list \<Rightarrow> real list \<Rightarrow> real list \<Rightarrow> real list \<Rightarrow>
   real list \<Rightarrow> real list \<Rightarrow> real list \<Rightarrow> real list \<Rightarrow> MotorResult" where
  "motor6 W_P W_L W_M S L a M rpms R SF =
    (let T6_payload = W_P * (S ! 5 - M ! 5);
         T6_L6 = W_L ! 5 * (S ! 5 - M ! 5 - L ! 5 / 2);
         T6_total = T6_payload + T6_L6;
         T6_sf = SF ! 5 * T6_total;
         T6_before = (if R ! 5 \<noteq> 0 then T6_total / (R ! 5) else 0);
         T6_before_sf = SF ! 5 * T6_before;
         P6 = (if rpms ! 5 \<noteq> 0 then T6_before * (rpms ! 5) * 1000 / 9550 else 0);
         P6_sf = SF ! 5 * P6
     in \<lparr>T_total = T6_total, T_sf = T6_sf, T_before = T6_before,
         T_before_sf = T6_before_sf, P = P6, P_sf = P6_sf\<rparr>)"

definition motor5 ::
  "real \<Rightarrow> real list \<Rightarrow> real list \<Rightarrow> real list \<Rightarrow> real list \<Rightarrow> real list \<Rightarrow>
   real list \<Rightarrow> real list \<Rightarrow> real list \<Rightarrow> real list \<Rightarrow> MotorResult" where
  "motor5 W_P W_L W_M S L a M rpms R SF =
    (let T5_payload = W_P * (S ! 5 - M ! 4);
         T5_L6 = W_L ! 5 * (S ! 5 - M ! 4 - L ! 5 / 2);
         T5_M6 = W_M ! 5 * ((M ! 5 + a ! 5 / 2) - M ! 4);
         T5_L5 = W_L ! 4 * (S ! 4 - M ! 4 - L ! 4 / 2);
         T5_total = T5_payload + T5_L6 + T5_M6 + T5_L5;
         T5_sf = SF ! 4 * T5_total;
         T5_before = (if R ! 4 \<noteq> 0 then T5_total / (R ! 4) else 0);
         T5_before_sf = SF ! 4 * T5_before;
         P5 = (if rpms ! 4 \<noteq> 0 then T5_before * (rpms ! 4) * 1000 / 9550 else 0);
         P5_sf = SF ! 4 * P5
     in \<lparr>T_total = T5_total, T_sf = T5_sf, T_before = T5_before,
         T_before_sf = T5_before_sf, P = P5, P_sf = P5_sf\<rparr>)"

definition motor4 ::
  "real \<Rightarrow> real list \<Rightarrow> real list \<Rightarrow> real list \<Rightarrow> real list \<Rightarrow> real list \<Rightarrow>
   real list \<Rightarrow> real list \<Rightarrow> real list \<Rightarrow> real list \<Rightarrow> MotorResult" where
  "motor4 W_P W_L W_M S L a M rpms R SF =
    (let T4_payload = W_P * (S ! 5 - M ! 3);
         T4_L6 = W_L ! 5 * (S ! 5 - M ! 3 - L ! 5 / 2);
         T4_L5 = W_L ! 4 * (S ! 4 - M ! 3 - L ! 4 / 2);
         T4_M6 = W_M ! 5 * ((M ! 5 + a ! 5 / 2) - M ! 3);
         T4_M5 = W_M ! 4 * ((M ! 4 + a ! 4 / 2) - M ! 3);
         T4_L4 = W_L ! 3 * (S ! 3 - M ! 3 - L ! 3 / 2);
         T4_total = T4_payload + T4_L6 + T4_L5 + T4_M6 + T4_M5 + T4_L4;
         T4_sf = SF ! 3 * T4_total;
         T4_before = (if R ! 3 \<noteq> 0 then T4_total / (R ! 3) else 0);
         T4_before_sf = SF ! 3 * T4_before;
         P4 = (if rpms ! 3 \<noteq> 0 then T4_before * (rpms ! 3) * 1000 / 9550 else 0);
         P4_sf = SF ! 3 * P4
     in \<lparr>T_total = T4_total, T_sf = T4_sf, T_before = T4_before,
         T_before_sf = T4_before_sf, P = P4, P_sf = P4_sf\<rparr>)"

definition motor3 ::
  "real \<Rightarrow> real list \<Rightarrow> real list \<Rightarrow> real list \<Rightarrow> real list \<Rightarrow> real list \<Rightarrow>
   real list \<Rightarrow> real list \<Rightarrow> real list \<Rightarrow> real list \<Rightarrow> MotorResult" where
  "motor3 W_P W_L W_M S L a M rpms R SF =
    (let T3_payload = W_P * (S ! 5 - M ! 2);
         T3_L6 = W_L ! 5 * (S ! 5 - M ! 2 - L ! 5 / 2);
         T3_L5 = W_L ! 4 * (S ! 4 - M ! 2 - L ! 4 / 2);
         T3_L4 = W_L ! 3 * (S ! 3 - M ! 2 - L ! 3 / 2);
         T3_M6 = W_M ! 5 * ((M ! 5 + a ! 5 / 2) - M ! 2);
         T3_M5 = W_M ! 4 * ((M ! 4 + a ! 4 / 2) - M ! 2);
         T3_M4 = W_M ! 3 * ((M ! 3 + a ! 3 / 2) - M ! 2);
         T3_L3 = W_L ! 2 * (S ! 2 - M ! 2 - L ! 2 / 2);
         T3_total = T3_payload + T3_L6 + T3_L5 + T3_L4 + T3_M6 + T3_M5 + T3_M4 + T3_L3;
         T3_sf = SF ! 2 * T3_total;
         T3_before = (if R ! 2 \<noteq> 0 then T3_total / (R ! 2) else 0);
         T3_before_sf = SF ! 2 * T3_before;
         P3 = (if rpms ! 2 \<noteq> 0 then T3_before * (rpms ! 2) * 1000 / 9550 else 0);
         P3_sf = SF ! 2 * P3
     in \<lparr>T_total = T3_total, T_sf = T3_sf, T_before = T3_before,
         T_before_sf = T3_before_sf, P = P3, P_sf = P3_sf\<rparr>)"

definition motor2 ::
  "real \<Rightarrow> real list \<Rightarrow> real list \<Rightarrow> real list \<Rightarrow> real list \<Rightarrow> real list \<Rightarrow>
   real list \<Rightarrow> real list \<Rightarrow> real list \<Rightarrow> real list \<Rightarrow> MotorResult" where
  "motor2 W_P W_L W_M S L a M rpms R SF =
    (let T2_payload = W_P * (S ! 5 - M ! 1);
         T2_L6 = W_L ! 5 * (S ! 5 - M ! 1 - L ! 5 / 2);
         T2_L5 = W_L ! 4 * (S ! 4 - M ! 1 - L ! 4 / 2);
         T2_L4 = W_L ! 3 * (S ! 3 - M ! 1 - L ! 3 / 2);
         T2_L3 = W_L ! 2 * (S ! 2 - M ! 1 - L ! 2 / 2);
         T2_L2 = W_L ! 1 * (S ! 1 - M ! 1 - L ! 1 / 2);
         T2_M6 = W_M ! 5 * ((M ! 5 + a ! 5 / 2) - M ! 1);
         T2_M5 = W_M ! 4 * ((M ! 4 + a ! 4 / 2) - M ! 1);
         T2_M4 = W_M ! 3 * ((M ! 3 + a ! 3 / 2) - M ! 1);
         T2_M3 = W_M ! 2 * ((M ! 2 + a ! 2 / 2) - M ! 1);
         T2_total = T2_payload + T2_L6 + T2_L5 + T2_L4 + T2_L3
                      + T2_L2 + T2_M6 + T2_M5 + T2_M4 + T2_M3;
         T2_sf = SF ! 1 * T2_total;
         T2_before = (if R ! 1 \<noteq> 0 then T2_total / (R ! 1) else 0);
         T2_before_sf = SF ! 1 * T2_before;
         P2 = (if rpms ! 1 \<noteq> 0 then T2_before * (rpms ! 1) * 1000 / 9550 else 0);
         P2_sf = SF ! 1 * P2
     in \<lparr>T_total = T2_total, T_sf = T2_sf, T_before = T2_before,
         T_before_sf = T2_before_sf, P = P2, P_sf = P2_sf\<rparr>)"

definition motor1 ::
  "real \<Rightarrow> real list \<Rightarrow> real list \<Rightarrow> real list \<Rightarrow> real list \<Rightarrow> real list \<Rightarrow>
   real list \<Rightarrow> real list \<Rightarrow> real list \<Rightarrow> real list \<Rightarrow> MotorResult" where
  "motor1 W_P W_L W_M S L a M rpms R SF =
    (let T1_payload = W_P * (S ! 5 - M ! 0);
         T1_L6 = W_L ! 5 * (S ! 5 - M ! 0 - L ! 5 / 2);
         T1_L5 = W_L ! 4 * (S ! 4 - M ! 0 - L ! 4 / 2);
         T1_L4 = W_L ! 3 * (S ! 3 - M ! 0 - L ! 3 / 2);
         T1_L3 = W_L ! 2 * (S ! 2 - M ! 0 - L ! 2 / 2);
         T1_L2 = W_L ! 1 * (S ! 1 - M ! 0 - L ! 1 / 2);
         T1_L1 = W_L ! 0 * (S ! 0 - M ! 0 - L ! 0 / 2);
         T1_M6 = W_M ! 5 * ((M ! 5 + a ! 5 / 2) - M ! 0);
         T1_M5 = W_M ! 4 * ((M ! 4 + a ! 4 / 2) - M ! 0);
         T1_M4 = W_M ! 3 * ((M ! 3 + a ! 3 / 2) - M ! 0);
         T1_M3 = W_M ! 2 * ((M ! 2 + a ! 2 / 2) - M ! 0);
         T1_M2 = W_M ! 1 * ((M ! 1 + a ! 1 / 2) - M ! 0);
         T1_total = T1_payload + T1_L6 + T1_L5 + T1_L4 + T1_L3 + T1_L2
                      + T1_L1 + T1_M6 + T1_M5 + T1_M4 + T1_M3 + T1_M2;
         T1_sf = SF ! 0 * T1_total;
         T1_before = (if R ! 0 \<noteq> 0 then T1_total / (R ! 0) else 0);
         T1_before_sf = SF ! 0 * T1_before;
         P1 = (if rpms ! 0 \<noteq> 0 then T1_before * (rpms ! 0) * 1000 / 9550 else 0);
         P1_sf = SF ! 0 * P1
     in \<lparr>T_total = T1_total, T_sf = T1_sf, T_before = T1_before,
         T_before_sf = T1_before_sf, P = P1, P_sf = P1_sf\<rparr>)"

text \<open>
  The body of the \<open>try\<close> block, statement by statement; \<open>Inl msg\<close> is an Error thrown
  with that message, \<open>Inr\<close> the value returned. The bound names are the source's local
  constants (so \<open>pi\<close> below is the source's constant, and \<open>rpm\<close> its array);
  an assignment to \<open>S\<close> and a \<open>motorResults.push\<close> rebind the name.
\<close>

definition try_block :: "InputData \<Rightarrow> string + MotorResult list" where
  "try_block data =
    (let g = 9.80665 :: real;
         pi = 3.141592653589793 :: real;
         m_payload = m_payload data;
         density = density data;
         links = links data;
         motors = motors data
     in
     if m_payload < 0 then Inl ''Payload mass cannot be negative''
     else if density < 0 then Inl ''Density must be positive''
     else if length links \<noteq> 6 then Inl ''Exactly 6 links are required''
     else if length motors \<noteq> 6 then Inl ''Exactly 6 motors are required''
     else
     let L = map (\<lambda>link. length_link link) links;
         r = map (\<lambda>link. radius link) links;
         m_motor = map (\<lambda>motor. mass motor) motors;
         a = map (\<lambda>motor. bodyLength motor) motors;
         M = map (\<lambda>motor. pivotPosition motor) motors;
         rpm = map (\<lambda>motor. rpm motor) motors;
         R = map (\<lambda>motor. gearRatio motor) motors;
         SF = map (\<lambda>motor. safetyFactor motor) motors
     in
     case validate_arrays 0 L r m_motor a M rpm R SF of
       Some msg \<Rightarrow> Inl msg
     | None \<Rightarrow>
     let S = [];
         S = array_set S 0 (L ! 0);
         S = joint_positions 1 L S;
         W_L = map (\<lambda>(len, i). g * density * pi * (r ! i)\<^sup>2 * len) (zip L [0..<length L]);
         W_M = map (\<lambda>m. g * m) m_motor;
         W_P = g * m_payload;
         motorResults = [];
         motorResults = motorResults @ [motor6 W_P W_L W_M S L a M rpm R SF];
         motorResults = motorResults @ [motor5 W_P W_L W_M S L a M rpm R SF];
         motorResults = motorResults @ [motor4 W_P W_L W_M S L a M rpm R SF];
         motorResults = motorResults @ [motor3 W_P W_L W_M S L a M rpm R SF];
         motorResults = motorResults @ [motor2 W_P W_L W_M S L a M rpm R SF];
         motorResults = motorResults @ [motor1 W_P W_L W_M S L a M rpm R SF]
     in Inr motorResults)"

text \<open>
  The \<open>catch\<close> clause turns a thrown Error into the error object; an empty message is
  replaced by the default text.
\<close>

definition performCalculations :: "InputData \<Rightarrow> Output" where
  "performCalculations data =
     (case try_block data of
        Inr motorResults \<Rightarrow> Results motorResults
      | Inl message \<Rightarrow>
          ErrorObject (if message \<noteq> [] then message
                       else ''An error occurred during calculations''))"

section \<open>The calculation with rounding\<close>

text \<open>
  The same function once more, for the one property below that exact arithmetic would
  overstate: here every addition, subtraction, multiplication, division and power of the
  source is followed by a rounding function \<open>rnd\<close>, and the two decimal constants are
  rounded as well; integer literals are taken as exact. With the identity for \<open>rnd\<close>
  these definitions are the ones above. The theorem that uses them asks of \<open>rnd\<close>
  only that it is monotone and maps 0 to 0, as rounding to the nearest representable
  number does; overflow to infinity and NaN stay outside the model. Validation compares
  and does not compute, so it is the loop \<open>validate_arrays\<close> as it stands.
\<close>

function joint_positions_rnd ::
  "(real \<Rightarrow> real) \<Rightarrow> nat \<Rightarrow> real list \<Rightarrow> real list \<Rightarrow> real list" where
  "joint_positions_rnd rnd i L S =
     (if i < 6
      then joint_positions_rnd rnd (i + 1) L (array_set S i (rnd (S ! (i - 1) + L ! i)))
      else S)"
  by pat_completeness auto
termination
  by (relation "measure (\<lambda>(rnd, i, _). 6 - i)") auto

declare joint_positions_rnd.simps [simp del]

definition motor6_rnd ::
  "(real \<Rightarrow> real) \<Rightarrow> real \<Rightarrow> real list \<Rightarrow> real list \<Rightarrow> real list \<Rightarrow> real list \<Rightarrow>
   real list \<Rightarrow> real list \<Rightarrow> real list \<Rightarrow> real list \<Rightarrow> real list \<Rightarrow> MotorResult" where
  "motor6_rnd rnd W_P W_L W_M S L a M rpms R SF =
    (let T6_payload = rnd (W_P * rnd (S ! 5 - M ! 5));
         T6_L6 = rnd (W_L ! 5 * rnd (rnd (S ! 5 - M ! 5) - rnd (L ! 5 / 2)));
         T6_total = rnd (T6_payload + T6_L6);
         T6_sf = rnd (SF ! 5 * T6_total);
         T6_before = (if R ! 5 \<noteq> 0 then rnd (T6_total / R ! 5) else 0);
         T6_before_sf = rnd (SF ! 5 * T6_before);
         P6 = (if rpms ! 5 \<noteq> 0 then rnd (rnd (rnd (T6_before * rpms ! 5) * 1000) /
             9550) else 0);
         P6_sf = rnd (SF ! 5 * P6)
     in \<lparr>T_total = T6_total, T_sf = T6_sf, T_before = T6_before,
         T_before_sf = T6_before_sf, P = P6, P_sf = P6_sf\<rparr>)"

definition motor5_rnd ::
  "(real \<Rightarrow> real) \<Rightarrow> real \<Rightarrow> real list \<Rightarrow> real list \<Rightarrow> real list \<Rightarrow> real list \<Rightarrow>
   real list \<Rightarrow> real list \<Rightarrow> real list \<Rightarrow> real list \<Rightarrow> real list \<Rightarrow> MotorResult" where
  "motor5_rnd rnd W_P W_L W_M S L a M rpms R SF =
    (let T5_payload = rnd (W_P * rnd (S ! 5 - M ! 4));
         T5_L6 = rnd (W_L ! 5 * rnd (rnd (S ! 5 - M ! 4) - rnd (L ! 5 / 2)));
         T5_M6 = rnd (W_M ! 5 * rnd (rnd (M ! 5 + rnd (a ! 5 / 2)) - M ! 4));
         T5_L5 = rnd (W_L ! 4 * rnd (rnd (S ! 4 - M ! 4) - rnd (L ! 4 / 2)));
         T5_total = rnd (rnd (rnd (T5_payload + T5_L6) + T5_M6) + T5_L5);
         T5_sf = rnd (SF ! 4 * T5_total);
         T5_before = (if R ! 4 \<noteq> 0 then rnd (T5_total / R ! 4) else 0);
         T5_before_sf = rnd (SF ! 4 * T5_before);
         P5 = (if rpms ! 4 \<noteq> 0 then rnd (rnd (rnd (T5_before * rpms ! 4) * 1000) /
             9550) else 0);
         P5_sf = rnd (SF ! 4 * P5)
     in \<lparr>T_total = T5_total, T_sf = T5_sf, T_before = T5_before,
         T_before_sf = T5_before_sf, P = P5, P_sf = P5_sf\<rparr>)"

definition motor4_rnd ::
  "(real \<Rightarrow> real) \<Rightarrow> real \<Rightarrow> real list \<Rightarrow> real list \<Rightarrow> real list \<Rightarrow> real list \<Rightarrow>
   real list \<Rightarrow> real list \<Rightarrow> real list \<Rightarrow> real list \<Rightarrow> real list \<Rightarrow> MotorResult" where
  "motor4_rnd rnd W_P W_L W_M S L a M rpms R SF =
    (let T4_payload = rnd (W_P * rnd (S ! 5 - M ! 3));
         T4_L6 = rnd (W_L ! 5 * rnd (rnd (S ! 5 - M ! 3) - rnd (L ! 5 / 2)));
         T4_L5 = rnd (W_L ! 4 * rnd (rnd (S ! 4 - M ! 3) - rnd (L ! 4 / 2)));
         T4_M6 = rnd (W_M ! 5 * rnd (rnd (M ! 5 + rnd (a ! 5 / 2)) - M ! 3));
         T4_M5 = rnd (W_M ! 4 * rnd (rnd (M ! 4 + rnd (a ! 4 / 2)) - M ! 3));
         T4_L4 = rnd (W_L ! 3 * rnd (rnd (S ! 3 - M ! 3) - rnd (L ! 3 / 2)));
         T4_total = rnd (rnd (rnd (rnd (rnd (T4_payload + T4_L6) + T4_L5) + T4_M6) + T4_M5)
             + T4_L4);
         T4_sf = rnd (SF ! 3 * T4_total);
         T4_before = (if R ! 3 \<noteq> 0 then rnd (T4_total / R ! 3) else 0);
         T4_before_sf = rnd (SF ! 3 * T4_before);
         P4 = (if rpms ! 3 \<noteq> 0 then rnd (rnd (rnd (T4_before * rpms ! 3) * 1000) /
             9550) else 0);
         P4_sf = rnd (SF ! 3 * P4)
     in \<lparr>T_total = T4_total, T_sf = T4_sf, T_before = T4_before,
         T_before_sf = T4_before_sf, P = P4, P_sf = P4_sf\<rparr>)"

definition motor3_rnd ::
  "(real \<Rightarrow> real) \<Rightarrow> real \<Rightarrow> real list \<Rightarrow> real list \<Rightarrow> real list \<Rightarrow> real list \<Rightarrow>
   real list \<Rightarrow> real list \<Rightarrow> real list \<Rightarrow> real list \<Rightarrow> real list \<Rightarrow> MotorResult" where
  "motor3_rnd rnd W_P W_L W_M S L a M rpms R SF =
    (let T3_payload = rnd (W_P * rnd (S ! 5 - M ! 2));
         T3_L6 = rnd (W_L ! 5 * rnd (rnd (S ! 5 - M ! 2) - rnd (L ! 5 / 2)));
         T3_L5 = rnd (W_L ! 4 * rnd (rnd (S ! 4 - M ! 2) - rnd (L ! 4 / 2)));
         T3_L4 = rnd (W_L ! 3 * rnd (rnd (S ! 3 - M ! 2) - rnd (L ! 3 / 2)));
         T3_M6 = rnd (W_M ! 5 * rnd (rnd (M ! 5 + rnd (a ! 5 / 2)) - M ! 2));
         T3_M5 = rnd (W_M ! 4 * rnd (rnd (M ! 4 + rnd (a ! 4 / 2)) - M ! 2));
         T3_M4 = rnd (W_M ! 3 * rnd (rnd (M ! 3 + rnd (a ! 3 / 2)) - M ! 2));
         T3_L3 = rnd (W_L ! 2 * rnd (rnd (S ! 2 - M ! 2) - rnd (L ! 2 / 2)));
         T3_total = rnd (rnd (rnd (rnd (rnd (rnd (rnd (T3_payload + T3_L6) + T3_L5) +
             T3_L4) + T3_M6) + T3_M5) + T3_M4) + T3_L3);
         T3_sf = rnd (SF ! 2 * T3_total);
         T3_before = (if R ! 2 \<noteq> 0 then rnd (T3_total / R ! 2) else 0);
         T3_before_sf = rnd (SF ! 2 * T3_before);
         P3 = (if rpms ! 2 \<noteq> 0 then rnd (rnd (rnd (T3_before * rpms ! 2) * 1000) /
             9550) else 0);
         P3_sf = rnd (SF ! 2 * P3)
     in \<lparr>T_total = T3_total, T_sf = T3_sf, T_before = T3_before,
         T_before_sf = T3_before_sf, P = P3, P_sf = P3_sf\<rparr>)"

definition motor2_rnd ::
  "(real \<Rightarrow> real) \<Rightarrow> real \<Rightarrow> real list \<Rightarrow> real list \<Rightarrow> real list \<Rightarrow> real list \<Rightarrow>
   real list \<Rightarrow> real list \<Rightarrow> real list \<Rightarrow> real list \<Rightarrow> real list \<Rightarrow> MotorResult" where
  "motor2_rnd rnd W_P W_L W_M S L a M rpms R SF =
    (let T2_payload = rnd (W_P * rnd (S ! 5 - M ! 1));
         T2_L6 = rnd (W_L ! 5 * rnd (rnd (S ! 5 - M ! 1) - rnd (L ! 5 / 2)));
         T2_L5 = rnd (W_L ! 4 * rnd (rnd (S ! 4 - M ! 1) - rnd (L ! 4 / 2)));
         T2_L4 = rnd (W_L ! 3 * rnd (rnd (S ! 3 - M ! 1) - rnd (L ! 3 / 2)));
         T2_L3 = rnd (W_L ! 2 * rnd (rnd (S ! 2 - M ! 1) - rnd (L ! 2 / 2)));
         T2_L2 = rnd (W_L ! 1 * rnd (rnd (S ! 1 - M ! 1) - rnd (L ! 1 / 2)));
         T2_M6 = rnd (W_M ! 5 * rnd (rnd (M ! 5 + rnd (a ! 5 / 2)) - M ! 1));
         T2_M5 = rnd (W_M ! 4 * rnd (rnd (M ! 4 + rnd (a ! 4 / 2)) - M ! 1));
         T2_M4 = rnd (W_M ! 3 * rnd (rnd (M ! 3 + rnd (a ! 3 / 2)) - M ! 1));
         T2_M3 = rnd (W_M ! 2 * rnd (rnd (M ! 2 + rnd (a ! 2 / 2)) - M ! 1));
         T2_total = rnd (rnd (rnd (rnd (rnd (rnd (rnd (rnd (rnd (T2_payload + T2_L6) +
             T2_L5) + T2_L4) + T2_L3) + T2_L2) + T2_M6) + T2_M5) + T2_M4) + T2_M3);
         T2_sf = rnd (SF ! 1 * T2_total);
         T2_before = (if R ! 1 \<noteq> 0 then rnd (T2_total / R ! 1) else 0);
         T2_before_sf = rnd (SF ! 1 * T2_before);
         P2 = (if rpms ! 1 \<noteq> 0 then rnd (rnd (rnd (T2_before * rpms ! 1) * 1000) /
             9550) else 0);
         P2_sf = rnd (SF ! 1 * P2)
     in \<lparr>T_total = T2_total, T_sf = T2_sf, T_before = T2_before,
         T_before_sf = T2_before_sf, P = P2, P_sf = P2_sf\<rparr>)"

definition motor1_rnd ::
  "(real \<Rightarrow> real) \<Rightarrow> real \<Rightarrow> real list \<Rightarrow> real list \<Rightarrow> real list \<Rightarrow> real list \<Rightarrow>
   real list \<Rightarrow> real list \<Rightarrow> real list \<Rightarrow> real list \<Rightarrow> real list \<Rightarrow> MotorResult" where
  "motor1_rnd rnd W_P W_L W_M S L a M rpms R SF =
    (let T1_payload = rnd (W_P * rnd (S ! 5 - M ! 0));
         T1_L6 = rnd (W_L ! 5 * rnd (rnd (S ! 5 - M ! 0) - rnd (L ! 5 / 2)));
         T1_L5 = rnd (W_L ! 4 * rnd (rnd (S ! 4 - M ! 0) - rnd (L ! 4 / 2)));
         T1_L4 = rnd (W_L ! 3 * rnd (rnd (S ! 3 - M ! 0) - rnd (L ! 3 / 2)));
         T1_L3 = rnd (W_L ! 2 * rnd (rnd (S ! 2 - M ! 0) - rnd (L ! 2 / 2)));
         T1_L2 = rnd (W_L ! 1 * rnd (rnd (S ! 1 - M ! 0) - rnd (L ! 1 / 2)));
         T1_L1 = rnd (W_L ! 0 * rnd (rnd (S ! 0 - M ! 0) - rnd (L ! 0 / 2)));
         T1_M6 = rnd (W_M ! 5 * rnd (rnd (M ! 5 + rnd (a ! 5 / 2)) - M ! 0));
         T1_M5 = rnd (W_M ! 4 * rnd (rnd (M ! 4 + rnd (a ! 4 / 2)) - M ! 0));
         T1_M4 = rnd (W_M ! 3 * rnd (rnd (M ! 3 + rnd (a ! 3 / 2)) - M ! 0));
         T1_M3 = rnd (W_M ! 2 * rnd (rnd (M ! 2 + rnd (a ! 2 / 2)) - M ! 0));
         T1_M2 = rnd (W_M ! 1 * rnd (rnd (M ! 1 + rnd (a ! 1 / 2)) - M ! 0));
         T1_total = rnd (rnd (rnd (rnd (rnd (rnd (rnd (rnd (rnd (rnd (rnd (T1_payload +
             T1_L6) + T1_L5) + T1_L4) + T1_L3) + T1_L2) + T1_L1) + T1_M6) + T1_M5) + T1_M4)
             + T1_M3) + T1_M2);
         T1_sf = rnd (SF ! 0 * T1_total);
         T1_before = (if R ! 0 \<noteq> 0 then rnd (T1_total / R ! 0) else 0);
         T1_before_sf = rnd (SF ! 0 * T1_before);
         P1 = (if rpms ! 0 \<noteq> 0 then rnd (rnd (rnd (T1_before * rpms ! 0) * 1000) /
             9550) else 0);
         P1_sf = rnd (SF ! 0 * P1)
     in \<lparr>T_total = T1_total, T_sf = T1_sf, T_before = T1_before,
         T_before_sf = T1_before_sf, P = P1, P_sf = P1_sf\<rparr>)"

definition try_block_rnd :: "(real \<Rightarrow> real) \<Rightarrow> InputData \<Rightarrow> string + MotorResult list" where
  "try_block_rnd rnd data =
    (let g = rnd 9.80665;
         pi = rnd 3.141592653589793;
         m_payload = m_payload data;
         density = density data;
         links = links data;
         motors = motors data
     in
     if m_payload < 0 then Inl ''Payload mass cannot be negative''
     else if density < 0 then Inl ''Density must be positive''
     else if length links \<noteq> 6 then Inl ''Exactly 6 links are required''
     else if length motors \<noteq> 6 then Inl ''Exactly 6 motors are required''
     else
     let L = map (\<lambda>link. length_link link) links;
         r = map (\<lambda>link. radius link) links;
         m_motor = map (\<lambda>motor. mass motor) motors;
         a = map (\<lambda>motor. bodyLength motor) motors;
         M = map (\<lambda>motor. pivotPosition motor) motors;
         rpm = map (\<lambda>motor. rpm motor) motors;
         R = map (\<lambda>motor. gearRatio motor) motors;
         SF = map (\<lambda>motor. safetyFactor motor) motors
     in
     case validate_arrays 0 L r m_motor a M rpm R SF of
       Some msg \<Rightarrow> Inl msg
     | None \<Rightarrow>
     let S = [];
         S = array_set S 0 (L ! 0);
         S = joint_positions_rnd rnd 1 L S;
         W_L = map (\<lambda>(len, i).
                  rnd (rnd (rnd (rnd (g * density) * pi) * rnd ((r ! i)\<^sup>2)) * len))
                 (zip L [0..<length L]);
         W_M = map (\<lambda>m. rnd (g * m)) m_motor;
         W_P = rnd (g * m_payload);
         motorResults = [];
         motorResults = motorResults @ [motor6_rnd rnd W_P W_L W_M S L a M rpm R SF];
         motorResults = motorResults @ [motor5_rnd rnd W_P W_L W_M S L a M rpm R SF];
         motorResults = motorResults @ [motor4_rnd rnd W_P W_L W_M S L a M rpm R SF];
         motorResults = motorResults @ [motor3_rnd rnd W_P W_L W_M S L a M rpm R SF];
         motorResults = motorResults @ [motor2_rnd rnd W_P W_L W_M S L a M rpm R SF];
         motorResults = motorResults @ [motor1_rnd rnd W_P W_L W_M S L a M rpm R SF]
     in Inr motorResults)"

definition performCalculations_rnd :: "(real \<Rightarrow> real) \<Rightarrow> InputData \<Rightarrow> Output" where
  "performCalculations_rnd rnd data =
     (case try_block_rnd rnd data of
        Inr motorResults \<Rightarrow> Results motorResults
      | Inl message \<Rightarrow>
          ErrorObject (if message \<noteq> [] then message
                       else ''An error occurred during calculations''))"

text \<open>The array \<open>S\<close> of joint positions as the source has it after its loop.\<close>

definition computed_S :: "(real \<Rightarrow> real) \<Rightarrow> InputData \<Rightarrow> real list" where
  "computed_S rnd data =
     (let L = map (\<lambda>link. length_link link) (links data);
          S = [];
          S = array_set S 0 (L ! 0)
      in joint_positions_rnd rnd 1 L S)"

text \<open>A rounding to try the definitions on: down to the next multiple of 1/4.\<close>

definition round_quarter :: "real \<Rightarrow> real" where
  "round_quarter x = of_int \<lfloor>x * 4\<rfloor> / 4"

section \<open>The specification's formulas\<close>

text \<open>
  The definitions of this section follow the words of the specification, not the code;
  the theorems below compare the two. Indices are 0-based: joint \<open>j = 0\<close> is the
  base-most one.

  Validation: the constraints of the data model.
\<close>

definition spec_link_ok :: "Link \<Rightarrow> bool" where
  "spec_link_ok l \<longleftrightarrow> length_link l > 0 \<and> radius l > 0"

definition spec_motor_ok :: "Motor \<Rightarrow> bool" where
  "spec_motor_ok m \<longleftrightarrow>
     mass m \<ge> 0 \<and> bodyLength m \<ge> 0 \<and> pivotPosition m \<ge> 0 \<and> rpm m \<ge> 0 \<and>
     gearRatio m \<ge> 0 \<and> safetyFactor m \<ge> 1"

definition spec_valid :: "InputData \<Rightarrow> bool" where
  "spec_valid d \<longleftrightarrow>
     m_payload d \<ge> 0 \<and> density d \<ge> 0 \<and>
     length (links d) = 6 \<and> length (motors d) = 6 \<and>
     list_all spec_link_ok (links d) \<and> list_all spec_motor_ok (motors d)"

text \<open>
  The checks in the order in which the specification lists them, each with whether it
  holds, and the first one that does not. The index of a per-link or per-motor check is
  0-based here.
\<close>

datatype check =
    PayloadMass | LinkDensity | LinkCount | MotorCount
  | LinkLength nat | LinkRadius nat
  | MotorMass nat | MotorBodyLength nat | MotorPivotPosition nat
  | MotorRpm nat | MotorGearRatio nat | MotorSafetyFactor nat

definition index_checks :: "InputData \<Rightarrow> nat \<Rightarrow> (check \<times> bool) list" where
  "index_checks d i =
     [(LinkLength i, length_link (links d ! i) > 0),
      (LinkRadius i, radius (links d ! i) > 0),
      (MotorMass i, mass (motors d ! i) \<ge> 0),
      (MotorBodyLength i, bodyLength (motors d ! i) \<ge> 0),
      (MotorPivotPosition i, pivotPosition (motors d ! i) \<ge> 0),
      (MotorRpm i, rpm (motors d ! i) \<ge> 0),
      (MotorGearRatio i, gearRatio (motors d ! i) \<ge> 0),
      (MotorSafetyFactor i, safetyFactor (motors d ! i) \<ge> 1)]"

definition spec_checks :: "InputData \<Rightarrow> (check \<times> bool) list" where
  "spec_checks d =
     [(PayloadMass, m_payload d \<ge> 0),
      (LinkDensity, density d \<ge> 0),
      (LinkCount, length (links d) = 6),
      (MotorCount, length (motors d) = 6)]
     @ concat (map (index_checks d) [0..<6])"

fun first_failing :: "(check \<times> bool) list \<Rightarrow> check option" where
  "first_failing [] = None"
| "first_failing ((c, holds) # cs) = (if holds then first_failing cs else Some c)"

definition first_violation :: "InputData \<Rightarrow> check option" where
  "first_violation d = first_failing (spec_checks d)"

text \<open>
  The message of each check: the field it is about and, for a per-link or per-motor check,
  the 1-based number of the link or motor.
\<close>

fun error_message :: "check \<Rightarrow> string" where
  "error_message PayloadMass = ''Payload mass cannot be negative''"
| "error_message LinkDensity = ''Density must be positive''"
| "error_message LinkCount = ''Exactly 6 links are required''"
| "error_message MotorCount = ''Exactly 6 motors are required''"
| "error_message (LinkLength i) =
     ''Link '' @ string_of_nat (i + 1) @ '' length must be positive''"
| "error_message (LinkRadius i) =
     ''Link '' @ string_of_nat (i + 1) @ '' radius must be positive''"
| "error_message (MotorMass i) =
     ''Motor '' @ string_of_nat (i + 1) @ '' mass cannot be negative''"
| "error_message (MotorBodyLength i) =
     ''Motor '' @ string_of_nat (i + 1) @ '' body length cannot be negative''"
| "error_message (MotorPivotPosition i) =
     ''Motor '' @ string_of_nat (i + 1) @ '' pivot position cannot be negative''"
| "error_message (MotorRpm i) =
     ''Motor '' @ string_of_nat (i + 1) @ '' RPM cannot be negative''"
| "error_message (MotorGearRatio i) =
     ''Motor '' @ string_of_nat (i + 1) @ '' gear ratio cannot be negative''"
| "error_message (MotorSafetyFactor i) =
     ''Motor '' @ string_of_nat (i + 1) @ '' safety factor must be at least 1''"

text \<open>The link or motor a check is about (0 for the four checks on the whole input).\<close>

fun check_index :: "check \<Rightarrow> nat" where
  "check_index (LinkLength i) = i"
| "check_index (LinkRadius i) = i"
| "check_index (MotorMass i) = i"
| "check_index (MotorBodyLength i) = i"
| "check_index (MotorPivotPosition i) = i"
| "check_index (MotorRpm i) = i"
| "check_index (MotorGearRatio i) = i"
| "check_index (MotorSafetyFactor i) = i"
| "check_index _ = 0"

text \<open>
  The algorithm: cumulative joint positions \<open>S[0] = length[0]\<close>,
  \<open>S[i] = S[i-1] + length[i]\<close>; the weights; the static torque about the pivot of
  joint \<open>j\<close>; and the derived quantities of steps 6 to 10.
\<close>

fun spec_S :: "InputData \<Rightarrow> nat \<Rightarrow> real" where
  "spec_S d 0 = length_link (links d ! 0)"
| "spec_S d (Suc i) = spec_S d i + length_link (links d ! Suc i)"

definition spec_W_link :: "InputData \<Rightarrow> nat \<Rightarrow> real" where
  "spec_W_link d i =
     9.80665 * density d * 3.141592653589793 * (radius (links d ! i))\<^sup>2
       * length_link (links d ! i)"

definition spec_W_motor :: "InputData \<Rightarrow> nat \<Rightarrow> real" where
  "spec_W_motor d i = 9.80665 * mass (motors d ! i)"

definition spec_W_payload :: "InputData \<Rightarrow> real" where
  "spec_W_payload d = 9.80665 * m_payload d"

definition pivot :: "InputData \<Rightarrow> nat \<Rightarrow> real" where
  "pivot d j = pivotPosition (motors d ! j)"

definition spec_torqueTotal :: "InputData \<Rightarrow> nat \<Rightarrow> real" where
  "spec_torqueTotal d j =
     spec_W_payload d * (spec_S d 5 - pivot d j)
     + (\<Sum>k = j..<6. spec_W_link d k * (spec_S d k - pivot d j - length_link (links d ! k) / 2))
     + (\<Sum>k = Suc j..<6.
          spec_W_motor d k * (pivot d k + bodyLength (motors d ! k) / 2 - pivot d j))"

definition spec_torqueBeforeGearing :: "InputData \<Rightarrow> nat \<Rightarrow> real" where
  "spec_torqueBeforeGearing d j =
     (if gearRatio (motors d ! j) \<noteq> 0
      then spec_torqueTotal d j / gearRatio (motors d ! j) else 0)"

definition spec_power :: "InputData \<Rightarrow> nat \<Rightarrow> real" where
  "spec_power d j =
     (if rpm (motors d ! j) \<noteq> 0
      then spec_torqueBeforeGearing d j * rpm (motors d ! j) * 1000 / 9550 else 0)"

definition spec_result :: "InputData \<Rightarrow> nat \<Rightarrow> MotorResult" where
  "spec_result d j =
     \<lparr>T_total = spec_torqueTotal d j,
      T_sf = safetyFactor (motors d ! j) * spec_torqueTotal d j,
      T_before = spec_torqueBeforeGearing d j,
      T_before_sf = safetyFactor (motors d ! j) * spec_torqueBeforeGearing d j,
      P = spec_power d j,
      P_sf = safetyFactor (motors d ! j) * spec_power d j\<rparr>"

text \<open>
  The projection the page applies to a successful outcome (\<open>results as MotorResult[]\<close>).
\<close>

fun results_of :: "Output \<Rightarrow> MotorResult list" where
  "results_of (Results rs) = rs"
| "results_of (ErrorObject message) = []"

section \<open>Example inputs\<close>

text \<open>The values the form fills in as its example (also the specification's scenario).\<close>

definition example_input :: InputData where
  "example_input =
     \<lparr>m_payload = 5, density = 2700,
      links =
        [\<lparr>length_link = 0.5, radius = 0.02\<rparr>,
         \<lparr>length_link = 0.4, radius = 0.02\<rparr>,
         \<lparr>length_link = 0.3, radius = 0.015\<rparr>,
         \<lparr>length_link = 0.3, radius = 0.015\<rparr>,
         \<lparr>length_link = 0.2, radius = 0.01\<rparr>,
         \<lparr>length_link = 0.1, radius = 0.01\<rparr>],
      motors =
        [\<lparr>mass = 2, bodyLength = 0.1, pivotPosition = 0, rpm = 100, gearRatio = 10,
          safetyFactor = 1.5\<rparr>,
         \<lparr>mass = 1.5, bodyLength = 0.08, pivotPosition = 0.5, rpm = 120, gearRatio = 8,
          safetyFactor = 1.5\<rparr>,
         \<lparr>mass = 1.2, bodyLength = 0.07, pivotPosition = 0.9, rpm = 150, gearRatio = 6,
          safetyFactor = 1.5\<rparr>,
         \<lparr>mass = 1, bodyLength = 0.06, pivotPosition = 1.2, rpm = 180, gearRatio = 5,
          safetyFactor = 1.5\<rparr>,
         \<lparr>mass = 0.8, bodyLength = 0.05, pivotPosition = 1.5, rpm = 200, gearRatio = 4,
          safetyFactor = 1.5\<rparr>,
         \<lparr>mass = 0.5, bodyLength = 0.04, pivotPosition = 1.7, rpm = 250, gearRatio = 3,
          safetyFactor = 1.5\<rparr>]\<rparr>"

text \<open>
  An arm of six unit links of density 0 whose motors are massless, do not turn and all sit
  at the same pivot position.
\<close>

definition unit_link :: Link where
  "unit_link = \<lparr>length_link = 1, radius = 1\<rparr>"

definition idle_motor :: "real \<Rightarrow> Motor" where
  "idle_motor pos =
     \<lparr>mass = 0, bodyLength = 0, pivotPosition = pos, rpm = 0, gearRatio = 0,
      safetyFactor = 1\<rparr>"

definition uniform_input :: "real \<Rightarrow> real \<Rightarrow> InputData" where
  "uniform_input payload pos =
     \<lparr>m_payload = payload, density = 0,
      links = [unit_link, unit_link, unit_link, unit_link, unit_link, unit_link],
      motors = [idle_motor pos, idle_motor pos, idle_motor pos, idle_motor pos,
                idle_motor pos, idle_motor pos]\<rparr>"

text \<open>The example with its last link removed, and with the safety factor of motor 3 set to 0.9.\<close>

definition five_link_input :: InputData where
  "five_link_input = example_input\<lparr>links := take 5 (links example_input)\<rparr>"

definition low_safety_factor_input :: InputData where
  "low_safety_factor_input =
     example_input\<lparr>motors := (motors example_input)
       [2 := (motors example_input ! 2)\<lparr>safetyFactor := 0.9\<rparr>]\<rparr>"

section \<open>The code against the specification's formulas\<close>

subsection \<open>Validation\<close>

lemma length6: "length xs = 6 \<Longrightarrow> \<exists>x0 x1 x2 x3 x4 x5. xs = [x0, x1, x2, x3, x4, x5]"
  by (simp add: eval_nat_numeral length_Suc_conv) blast

lemma joint_positions_six:
  "joint_positions 1 [l0, l1, l2, l3, l4, l5] [l0] =
     [l0, l0 + l1, l0 + l1 + l2, l0 + l1 + l2 + l3, l0 + l1 + l2 + l3 + l4,
      l0 + l1 + l2 + l3 + l4 + l5]"
  by (subst joint_positions.simps, simp add: array_set_def)+

lemma validate_arrays_checks:
  assumes "length (links d) = 6" "length (motors d) = 6"
  shows "validate_arrays i (map length_link (links d)) (map radius (links d))
           (map mass (motors d)) (map bodyLength (motors d)) (map pivotPosition (motors d))
           (map rpm (motors d)) (map gearRatio (motors d)) (map safetyFactor (motors d))
         = map_option error_message (first_failing (concat (map (index_checks d) [i..<6])))"
proof (induction "6 - i" arbitrary: i)
  case 0
  then show ?case by (subst validate_arrays.simps) simp
next
  case (Suc n)
  then have i: "i < 6" by simp
  have IH: "validate_arrays (i + 1) (map length_link (links d)) (map radius (links d))
           (map mass (motors d)) (map bodyLength (motors d)) (map pivotPosition (motors d))
           (map rpm (motors d)) (map gearRatio (motors d)) (map safetyFactor (motors d))
         = map_option error_message (first_failing (concat (map (index_checks d) [i + 1..<6])))"
    using Suc by simp
  have upt: "[i..<6] = i # [i + 1..<6]" using i by (simp add: upt_conv_Cons)
  show ?case
    apply (subst validate_arrays.simps)
    apply (subst upt)
    using i assms IH by (simp add: index_checks_def not_le not_less del: string_of_nat.simps)
qed

lemma first_failing_None: "first_failing cs = None \<longleftrightarrow> list_all snd cs"
  by (induction cs rule: first_failing.induct) auto

lemma first_failing_append:
  "first_failing (cs @ ds) = (case first_failing cs of Some c \<Rightarrow> Some c | None \<Rightarrow> first_failing ds)"
  by (induction cs rule: first_failing.induct) auto

lemma spec_valid_first_violation: "spec_valid d \<longleftrightarrow> first_violation d = None"
proof (cases "length (links d) = 6 \<and> length (motors d) = 6")
  case True
  then obtain l0 l1 l2 l3 l4 l5 m0 m1 m2 m3 m4 m5
    where "links d = [l0, l1, l2, l3, l4, l5]" "motors d = [m0, m1, m2, m3, m4, m5]"
    using length6 [of "links d"] length6 [of "motors d"] by auto
  then show ?thesis
    by (auto simp add: spec_valid_def first_violation_def spec_checks_def first_failing_None
          index_checks_def upt_rec spec_link_ok_def spec_motor_ok_def)
next
  case False
  then show ?thesis
    by (auto simp add: spec_valid_def first_violation_def spec_checks_def)
qed

lemma try_block_error:
  assumes "first_violation d = Some c"
  shows "try_block d = Inl (error_message c)"
proof (cases "m_payload d \<ge> 0 \<and> density d \<ge> 0 \<and> length (links d) = 6 \<and> length (motors d) = 6")
  case True
  then have "first_failing (concat (map (index_checks d) [0..<6])) = Some c"
    using assms by (simp add: first_violation_def spec_checks_def)
  then show ?thesis
    using True validate_arrays_checks [of d 0]
    by (simp add: try_block_def Let_def not_less)
next
  case False
  then show ?thesis
    using assms
    by (auto simp add: try_block_def Let_def first_violation_def spec_checks_def not_less
          split: if_splits)
qed

subsection \<open>The six blocks\<close>

lemma sum_below_6:
  fixes f :: "nat \<Rightarrow> real"
  shows "sum f {0..<6} = f 0 + f 1 + f 2 + f 3 + f 4 + f 5"
    and "sum f {Suc 0..<6} = f 1 + f 2 + f 3 + f 4 + f 5"
    and "sum f {Suc (Suc 0)..<6} = f 2 + f 3 + f 4 + f 5"
    and "sum f {2..<6} = f 2 + f 3 + f 4 + f 5"
    and "sum f {3..<6} = f 3 + f 4 + f 5"
    and "sum f {4..<6} = f 4 + f 5"
    and "sum f {5..<6} = f 5"
    and "sum f {6..<6} = 0"
  by (simp_all add: sum.atLeast_Suc_lessThan eval_nat_numeral)

lemma motor_blocks_spec:
  assumes "W_P = spec_W_payload d"
    and "\<And>i. i < 6 \<Longrightarrow> W_L ! i = spec_W_link d i"
    and "\<And>i. i < 6 \<Longrightarrow> W_M ! i = spec_W_motor d i"
    and "\<And>i. i < 6 \<Longrightarrow> S ! i = spec_S d i"
    and "\<And>i. i < 6 \<Longrightarrow> L ! i = length_link (links d ! i)"
    and "\<And>i. i < 6 \<Longrightarrow> a ! i = bodyLength (motors d ! i)"
    and "\<And>i. i < 6 \<Longrightarrow> M ! i = pivot d i"
    and "\<And>i. i < 6 \<Longrightarrow> rpms ! i = rpm (motors d ! i)"
    and "\<And>i. i < 6 \<Longrightarrow> R ! i = gearRatio (motors d ! i)"
    and "\<And>i. i < 6 \<Longrightarrow> SF ! i = safetyFactor (motors d ! i)"
  shows "motor6 W_P W_L W_M S L a M rpms R SF = spec_result d 5"
    and "motor5 W_P W_L W_M S L a M rpms R SF = spec_result d 4"
    and "motor4 W_P W_L W_M S L a M rpms R SF = spec_result d 3"
    and "motor3 W_P W_L W_M S L a M rpms R SF = spec_result d 2"
    and "motor2 W_P W_L W_M S L a M rpms R SF = spec_result d 1"
    and "motor1 W_P W_L W_M S L a M rpms R SF = spec_result d 0"
  by (simp_all add: motor6_def motor5_def motor4_def motor3_def motor2_def motor1_def Let_def
      spec_result_def spec_power_def spec_torqueBeforeGearing_def spec_torqueTotal_def
      assms sum_below_6 add_ac mult_ac
      del: spec_S.simps split del: if_split cong del: if_weak_cong)


lemma joint_positions_spec:
  assumes "length (links d) = 6" "i < 6"
  shows "joint_positions 1 (map length_link (links d))
           (array_set [] 0 (map length_link (links d) ! 0)) ! i = spec_S d i"
proof -
  obtain l0 l1 l2 l3 l4 l5 where ls: "links d = [l0, l1, l2, l3, l4, l5]"
    using length6 [OF assms(1)] by auto
  have "i \<in> {0, 1, 2, 3, 4, 5}" using assms(2) by auto
  then show ?thesis
    by (auto simp add: ls array_set_def joint_positions_six [unfolded One_nat_def]
          eval_nat_numeral)
qed

lemma try_block_valid:
  assumes "spec_valid d"
  shows "try_block d = Inr (map (spec_result d) [5, 4, 3, 2, 1, 0])"
proof -
  from assms have len: "length (links d) = 6" "length (motors d) = 6"
    by (simp_all add: spec_valid_def)
  have nonneg: "0 \<le> m_payload d" "0 \<le> density d"
    using assms by (simp_all add: spec_valid_def)
  have "first_violation d = None"
    using assms by (simp add: spec_valid_first_violation)
  then have "first_failing (concat (map (index_checks d) [0..<6])) = None"
    using nonneg len by (simp add: first_violation_def spec_checks_def)
  then have val: "validate_arrays 0 (map length_link (links d)) (map radius (links d))
           (map mass (motors d)) (map bodyLength (motors d)) (map pivotPosition (motors d))
           (map rpm (motors d)) (map gearRatio (motors d)) (map safetyFactor (motors d)) = None"
    using validate_arrays_checks [OF len, of 0] by simp
  let ?L = "map length_link (links d)"
  let ?r = "map radius (links d)"
  let ?m_motor = "map mass (motors d)"
  let ?S = "joint_positions 1 ?L (array_set [] 0 (?L ! 0))"
  let ?W_L = "map (\<lambda>(len, i). 9.80665 * density d * 3.141592653589793 * (?r ! i)\<^sup>2 * len)
                (zip ?L [0..<length ?L])"
  let ?W_M = "map (\<lambda>m. 9.80665 * m) ?m_motor"
  have A1: "9.80665 * m_payload d = spec_W_payload d"
    by (simp add: spec_W_payload_def)
  have A2: "\<And>i. i < 6 \<Longrightarrow> ?W_L ! i = spec_W_link d i"
    by (simp add: len spec_W_link_def)
  have A3: "\<And>i. i < 6 \<Longrightarrow> ?W_M ! i = spec_W_motor d i"
    by (simp add: len spec_W_motor_def)
  have A4: "\<And>i. i < 6 \<Longrightarrow> ?S ! i = spec_S d i"
    by (rule joint_positions_spec [OF len(1)])
  have A5: "\<And>i. i < 6 \<Longrightarrow> ?L ! i = length_link (links d ! i)"
    by (simp add: len)
  have A6: "\<And>i. i < 6 \<Longrightarrow> map bodyLength (motors d) ! i = bodyLength (motors d ! i)"
    by (simp add: len)
  have A7: "\<And>i. i < 6 \<Longrightarrow> map pivotPosition (motors d) ! i = pivot d i"
    by (simp add: len pivot_def)
  have A8: "\<And>i. i < 6 \<Longrightarrow> map rpm (motors d) ! i = rpm (motors d ! i)"
    by (simp add: len)
  have A9: "\<And>i. i < 6 \<Longrightarrow> map gearRatio (motors d) ! i = gearRatio (motors d ! i)"
    by (simp add: len)
  have A10: "\<And>i. i < 6 \<Longrightarrow> map safetyFactor (motors d) ! i = safetyFactor (motors d ! i)"
    by (simp add: len)
  note blocks = motor_blocks_spec [OF A1 A2 A3 A4 A5 A6 A7 A8 A9 A10]
  have pos: "\<not> m_payload d < 0" "\<not> density d < 0"
    using nonneg by simp_all
  show ?thesis
    unfolding try_block_def Let_def
    by (simp only: pos len val if_False simp_thms option.case blocks append.simps list.map)
qed


subsection \<open>The outcome of a call\<close>

lemma error_message_nonempty: "error_message c \<noteq> []"
  by (cases c) simp_all

lemma performCalculations_valid:
  "spec_valid d \<Longrightarrow> performCalculations d = Results (map (spec_result d) [5, 4, 3, 2, 1, 0])"
  by (simp add: performCalculations_def try_block_valid)

lemma performCalculations_error:
  "first_violation d = Some c \<Longrightarrow> performCalculations d = ErrorObject (error_message c)"
  by (simp add: performCalculations_def try_block_error error_message_nonempty)

lemma nth_joint: "j < 6 \<Longrightarrow> map f [5, 4, 3, 2, 1, 0 :: nat] ! (5 - j) = f j"
proof -
  assume "j < 6"
  then have "j \<in> {0, 1, 2, 3, 4, 5}" by auto
  then show ?thesis by auto
qed

lemma example_input_valid: "spec_valid example_input"
  by (simp add: spec_valid_def example_input_def spec_link_ok_def spec_motor_ok_def)

lemma uniform_input_valid: "0 \<le> payload \<Longrightarrow> 0 \<le> pos \<Longrightarrow> spec_valid (uniform_input payload pos)"
  by (simp add: spec_valid_def uniform_input_def spec_link_ok_def spec_motor_ok_def
      unit_link_def idle_motor_def)

text \<open>
  The inputs that satisfy the specification's constraints are exactly those for which the
  call returns a list of results.
\<close>

lemma passes_validation_iff: "spec_valid d \<longleftrightarrow> (\<exists>rs. performCalculations d = Results rs)"
proof
  assume "spec_valid d"
  then show "\<exists>rs. performCalculations d = Results rs"
    by (simp add: performCalculations_valid)
next
  assume r: "\<exists>rs. performCalculations d = Results rs"
  show "spec_valid d"
  proof (rule ccontr)
    assume "\<not> spec_valid d"
    then obtain c where "first_violation d = Some c"
      by (auto simp add: spec_valid_first_violation)
    then have "performCalculations d = ErrorObject (error_message c)"
      by (rule performCalculations_error)
    with r show False by auto
  qed
qed

subsection \<open>Messages and checks\<close>

lemma string_of_nat_inj_upto_6:
  assumes "i < 6" "j < 6" "string_of_nat (Suc i) = string_of_nat (Suc j)"
  shows "i = j"
proof -
  have "i \<in> {0, 1, 2, 3, 4, 5}" "j \<in> {0, 1, 2, 3, 4, 5}" using assms by auto
  then show ?thesis using assms(3) by (auto simp add: digit_char_def)
qed

lemma error_message_inj:
  assumes "check_index c < 6" "check_index c' < 6" "error_message c = error_message c'"
  shows "c = c'"
  using assms
  by (cases c; cases c')
     (auto dest: string_of_nat_inj_upto_6 simp del: string_of_nat.simps)

lemma spec_checks_index: "c \<in> fst ` set (spec_checks d) \<Longrightarrow> check_index c < 6"
  by (auto simp add: spec_checks_def index_checks_def)


lemma not_valid_first_violation: "\<not> spec_valid d \<Longrightarrow> \<exists>c. first_violation d = Some c"
  by (simp add: spec_valid_first_violation)

lemma first_failing_mem: "first_failing cs = Some c \<Longrightarrow> c \<in> fst ` set cs"
  by (induction cs rule: first_failing.induct) (auto split: if_splits)

lemma index_checks_prefix:
  "(\<And>k. k < i \<Longrightarrow> list_all snd (index_checks d k)) \<Longrightarrow>
   list_all snd (concat (map (index_checks d) [0..<i]))"
  by (induction i) auto

lemma first_violation_at_index:
  assumes "0 \<le> m_payload d" "0 \<le> density d" "length (links d) = 6" "length (motors d) = 6"
    and "i < 6"
    and "\<And>k. k < i \<Longrightarrow> list_all snd (index_checks d k)"
    and "first_failing (index_checks d i) = Some c"
  shows "first_violation d = Some c"
proof -
  have "[0..<6] = [0..<i] @ i # [Suc i..<6]"
    using assms(5) by (metis le_add2 le_add_same_cancel2 less_imp_add_positive upt_add_eq_append upt_conv_Cons)
  then have "concat (map (index_checks d) [0..<6]) =
      concat (map (index_checks d) [0..<i]) @ index_checks d i
        @ concat (map (index_checks d) [Suc i..<6])"
    by simp
  moreover have "first_failing (concat (map (index_checks d) [0..<i])) = None"
    using index_checks_prefix [of i d] assms(6) by (simp add: first_failing_None)
  ultimately have "first_failing (concat (map (index_checks d) [0..<6])) = Some c"
    using assms(7) by (simp add: first_failing_append)
  then show ?thesis
    using assms(1-4) by (simp add: first_violation_def spec_checks_def)
qed

lemma first_violation_LinkDensity:
  "first_violation d = Some LinkDensity \<longleftrightarrow> 0 \<le> m_payload d \<and> density d < 0"
proof -
  have "first_failing (concat (map (index_checks d) [0..<6])) \<noteq> Some LinkDensity"
  proof
    assume "first_failing (concat (map (index_checks d) [0..<6])) = Some LinkDensity"
    then have "LinkDensity \<in> fst ` set (concat (map (index_checks d) [0..<6]))"
      by (rule first_failing_mem)
    then show False by (auto simp add: index_checks_def)
  qed
  then show ?thesis
    by (auto simp add: first_violation_def spec_checks_def not_le)
qed

lemma density_message_iff:
  assumes "0 \<le> m_payload d"
  shows "performCalculations d = ErrorObject ''Density must be positive'' \<longleftrightarrow> density d < 0"
proof
  assume "density d < 0"
  then have "first_violation d = Some LinkDensity"
    using assms by (simp add: first_violation_LinkDensity)
  then show "performCalculations d = ErrorObject ''Density must be positive''"
    using performCalculations_error by fastforce
next
  assume e: "performCalculations d = ErrorObject ''Density must be positive''"
  then have "\<not> spec_valid d"
    using performCalculations_valid by fastforce
  then obtain c where c: "first_violation d = Some c"
    using not_valid_first_violation by blast
  then have "c \<in> fst ` set (spec_checks d)"
    unfolding first_violation_def by (rule first_failing_mem)
  then have "check_index c < 6" by (rule spec_checks_index)
  moreover have "error_message c = error_message LinkDensity"
    using e performCalculations_error [OF c] by simp
  ultimately have "c = LinkDensity"
    by (intro error_message_inj) simp_all
  then show "density d < 0"
    using c by (simp add: first_violation_LinkDensity)
qed

subsection \<open>Changing the payload mass or a pivot position\<close>


lemma spec_valid_set_pivot:
  assumes "spec_valid d" "k < 6" "0 \<le> p"
  shows "spec_valid (d\<lparr>motors := (motors d)[k := (motors d ! k)\<lparr>pivotPosition := p\<rparr>]\<rparr>)"
proof -
  have len: "length (motors d) = 6" and ok: "list_all spec_motor_ok (motors d)"
    using assms(1) by (simp_all add: spec_valid_def)
  then have "spec_motor_ok (motors d ! k)"
    using assms(2) by (simp add: list_all_length)
  then have "spec_motor_ok ((motors d ! k)\<lparr>pivotPosition := p\<rparr>)"
    using assms(3) by (simp add: spec_motor_ok_def)
  then have "list_all spec_motor_ok ((motors d)[k := (motors d ! k)\<lparr>pivotPosition := p\<rparr>])"
    using ok len assms(2) by (auto simp add: list_all_length nth_list_update)
  then show ?thesis
    using assms(1) by (simp add: spec_valid_def)
qed

subsection \<open>The uniform arm\<close>

lemma uniform_input_S5: "spec_S (uniform_input payload pos) 5 = 6"
  by (simp add: eval_nat_numeral uniform_input_def unit_link_def)

lemma uniform_input_weights:
  "spec_W_payload (uniform_input payload pos) = 9.80665 * payload"
  "spec_W_link (uniform_input payload pos) k = 0"
  by (simp_all add: spec_W_payload_def spec_W_link_def uniform_input_def)

lemma uniform_input_torque:
  "spec_torqueTotal (uniform_input payload pos) 5 = 9.80665 * payload * (6 - pos)"
  "spec_torqueTotal (uniform_input payload pos) 4 = 9.80665 * payload * (6 - pos)"
  "spec_torqueTotal (uniform_input payload pos) 3 = 9.80665 * payload * (6 - pos)"
  "spec_torqueTotal (uniform_input payload pos) 2 = 9.80665 * payload * (6 - pos)"
  "spec_torqueTotal (uniform_input payload pos) 1 = 9.80665 * payload * (6 - pos)"
  "spec_torqueTotal (uniform_input payload pos) 0 = 9.80665 * payload * (6 - pos)"
  by (simp_all add: spec_torqueTotal_def uniform_input_S5 uniform_input_weights sum_below_6
      del: spec_S.simps)
     (simp_all add: spec_W_motor_def pivot_def uniform_input_def idle_motor_def)

subsection \<open>The calculation with rounding\<close>

text \<open>With the identity as rounding, the second model is the first.\<close>

lemma joint_positions_rnd_exact: "joint_positions_rnd (\<lambda>x. x) i L S = joint_positions i L S"
  by (induction i L S rule: joint_positions.induct)
     (subst joint_positions_rnd.simps, subst joint_positions.simps, simp)

lemma motor_rnd_exact:
  "motor6_rnd (\<lambda>x. x) = motor6" "motor5_rnd (\<lambda>x. x) = motor5" "motor4_rnd (\<lambda>x. x) = motor4"
  "motor3_rnd (\<lambda>x. x) = motor3" "motor2_rnd (\<lambda>x. x) = motor2" "motor1_rnd (\<lambda>x. x) = motor1"
  by (simp_all add: fun_eq_iff motor6_rnd_def motor5_rnd_def motor4_rnd_def motor3_rnd_def
      motor2_rnd_def motor1_rnd_def motor6_def motor5_def motor4_def motor3_def motor2_def
      motor1_def)

lemma performCalculations_rnd_exact: "performCalculations_rnd (\<lambda>x. x) d = performCalculations d"
  unfolding performCalculations_rnd_def performCalculations_def try_block_rnd_def try_block_def
  by (simp only: joint_positions_rnd_exact motor_rnd_exact)

text \<open>
  For a valid input the rounded call returns the six blocks, and in each block \<open>T_total\<close>
  is monotone in the payload weight when the rounded lever arm of the payload is not
  negative.
\<close>

lemma validate_arrays_valid:
  assumes "spec_valid d"
  shows "validate_arrays 0 (map length_link (links d)) (map radius (links d))
           (map mass (motors d)) (map bodyLength (motors d)) (map pivotPosition (motors d))
           (map rpm (motors d)) (map gearRatio (motors d)) (map safetyFactor (motors d)) = None"
proof -
  from assms have len: "length (links d) = 6" "length (motors d) = 6"
    and nonneg: "0 \<le> m_payload d" "0 \<le> density d"
    by (simp_all add: spec_valid_def)
  have "first_violation d = None"
    using assms by (simp add: spec_valid_first_violation)
  then have "first_failing (concat (map (index_checks d) [0..<6])) = None"
    using nonneg len by (simp add: first_violation_def spec_checks_def)
  then show ?thesis
    using validate_arrays_checks [OF len, of 0] by simp
qed



lemma try_block_rnd_valid:
  assumes "spec_valid d"
  shows "try_block_rnd rnd d =
    (let L = map length_link (links d);
         r = map radius (links d);
         a = map bodyLength (motors d);
         M = map pivotPosition (motors d);
         rpm = map rpm (motors d);
         R = map gearRatio (motors d);
         SF = map safetyFactor (motors d);
         S = computed_S rnd d;
         W_L = map (\<lambda>(len, i).
                  rnd (rnd (rnd (rnd (rnd 9.80665 * density d) * rnd 3.141592653589793)
                         * rnd ((r ! i)\<^sup>2)) * len))
                 (zip L [0..<length L]);
         W_M = map (\<lambda>m. rnd (rnd 9.80665 * m)) (map mass (motors d));
         W_P = rnd (rnd 9.80665 * m_payload d)
     in Inr
          [motor6_rnd rnd W_P W_L W_M S L a M rpm R SF,
           motor5_rnd rnd W_P W_L W_M S L a M rpm R SF,
           motor4_rnd rnd W_P W_L W_M S L a M rpm R SF,
           motor3_rnd rnd W_P W_L W_M S L a M rpm R SF,
           motor2_rnd rnd W_P W_L W_M S L a M rpm R SF,
           motor1_rnd rnd W_P W_L W_M S L a M rpm R SF])"
proof -
  from assms have len: "length (links d) = 6" "length (motors d) = 6"
    and pos: "\<not> m_payload d < 0" "\<not> density d < 0"
    by (simp_all add: spec_valid_def)
  note val = validate_arrays_valid [OF assms]
  show ?thesis
    unfolding try_block_rnd_def computed_S_def Let_def
    by (simp only: pos len val if_False simp_thms option.case append.simps)
qed


lemma round_quarter_numeral [simp]:
  "round_quarter 0 = 0" "round_quarter 1 = 1" "round_quarter (numeral n) = numeral n"
  by (simp_all add: round_quarter_def)

lemma computed_S_uniform:
  "computed_S round_quarter (uniform_input payload pos) = [1, 2, 3, 4, 5, 6]"
  unfolding computed_S_def Let_def
  by (simp add: uniform_input_def unit_link_def array_set_def)
     ((subst joint_positions_rnd.simps, simp add: array_set_def)+)

lemma uniform_input_rounded_blocks:
  "0 \<le> payload \<Longrightarrow>
   performCalculations_rnd round_quarter (uniform_input payload 0) =
     (let W_P = round_quarter (round_quarter 9.80665 * payload);
          z = [0, 0, 0, 0, 0, 0];
          u = [1, 1, 1, 1, 1, 1];
          S = [1, 2, 3, 4, 5, 6]
      in Results
           [motor6_rnd round_quarter W_P z z S u z z z z u,
            motor5_rnd round_quarter W_P z z S u z z z z u,
            motor4_rnd round_quarter W_P z z S u z z z z u,
            motor3_rnd round_quarter W_P z z S u z z z z u,
            motor2_rnd round_quarter W_P z z S u z z z z u,
            motor1_rnd round_quarter W_P z z S u z z z z u])"
  by (simp add: performCalculations_rnd_def try_block_rnd_valid uniform_input_valid
      computed_S_uniform Let_def)
     (simp add: uniform_input_def unit_link_def idle_motor_def eval_nat_numeral)

lemma round_quarter_g: "round_quarter 9.80665 = 9.75"
  by (simp add: round_quarter_def)

lemma small_payload_absorbed:
  "map T_total (results_of (performCalculations_rnd round_quarter (uniform_input 0 0))) =
     [0, 0, 0, 0, 0, 0] \<and>
   map T_total (results_of (performCalculations_rnd round_quarter (uniform_input 0.01 0))) =
     [0, 0, 0, 0, 0, 0]"
  by (simp add: uniform_input_rounded_blocks round_quarter_g motor6_rnd_def motor5_rnd_def
       motor4_rnd_def motor3_rnd_def motor2_rnd_def motor1_rnd_def Let_def)
     (simp add: round_quarter_def)

section \<open>The claims\<close>

text \<open>
  Claim C1. For every input that passes validation and every joint index \<open>j\<close>
  (0-based, \<open>j = 0\<close> base-most, \<open>j = 5\<close> end-effector-most), the call succeeds and
  the returned \<open>T_total\<close> of joint \<open>j\<close>, which stands at position \<open>5 - j\<close> of the
  list, is the payload term \<open>W_payload * (S[5] - pivot[j])\<close>, plus the link terms
  \<open>W_link[k] * (S[k] - pivot[j] - length[k]/2)\<close> for \<open>k \<ge> j\<close>, plus the motor terms
  \<open>W_motor[k] * (pivot[k] + bodyLength[k]/2 - pivot[j])\<close> for \<open>k > j\<close>, with the
  weights and the positions \<open>S\<close> as the specification defines them.
\<close>

theorem torqueTotal_formula:
  assumes "spec_valid d" and "j < 6"
  shows "\<exists>rs. performCalculations d = Results rs \<and>
           T_total (rs ! (5 - j)) =
             spec_W_payload d * (spec_S d 5 - pivot d j)
             + (\<Sum>k = j..<6.
                  spec_W_link d k * (spec_S d k - pivot d j - length_link (links d ! k) / 2))
             + (\<Sum>k = Suc j..<6.
                  spec_W_motor d k * (pivot d k + bodyLength (motors d ! k) / 2 - pivot d j))"
proof -
  have r: "performCalculations d = Results (map (spec_result d) [5, 4, 3, 2, 1, 0])"
    using assms(1) by (rule performCalculations_valid)
  have n: "map (spec_result d) [5, 4, 3, 2, 1, 0] ! (5 - j) = spec_result d j"
    using assms(2) by (rule nth_joint)
  have "T_total (map (spec_result d) [5, 4, 3, 2, 1, 0] ! (5 - j)) =
             spec_W_payload d * (spec_S d 5 - pivot d j)
             + (\<Sum>k = j..<6.
                  spec_W_link d k * (spec_S d k - pivot d j - length_link (links d ! k) / 2))
             + (\<Sum>k = Suc j..<6.
                  spec_W_motor d k * (pivot d k + bodyLength (motors d ! k) / 2 - pivot d j))"
    unfolding n by (simp add: spec_result_def spec_torqueTotal_def)
  with r show ?thesis by blast
qed

theorem torqueTotal_formula_witness:
  "spec_valid example_input \<and> (5 :: nat) < 6 \<and>
   (\<exists>rs. performCalculations example_input = Results rs \<and>
      T_total (rs ! 0) =
        9.80665 * 5 * (1.8 - 1.7)
        + 9.80665 * 2700 * 3.141592653589793 * 0.01\<^sup>2 * 0.1 * (1.8 - 1.7 - 0.1 / 2))"
proof -
  have v: "spec_valid example_input"
    by (simp add: spec_valid_def example_input_def spec_link_ok_def spec_motor_ok_def)
  have S5: "spec_S example_input 5 = 1.8"
    by (simp add: eval_nat_numeral example_input_def)
  have W: "spec_W_payload example_input = 9.80665 * 5"
    "spec_W_link example_input 5 = 9.80665 * 2700 * 3.141592653589793 * 0.01\<^sup>2 * 0.1"
    "pivot example_input 5 = 1.7"
    "length_link (links example_input ! 5) = 0.1"
    by (simp_all add: spec_W_payload_def spec_W_link_def pivot_def example_input_def)
  from torqueTotal_formula [OF v, of 5]
  show ?thesis
    by (simp add: v S5 W sum_below_6 del: spec_S.simps)
qed


text \<open>
  Claim C2. For every input that passes validation, the call succeeds with a list of exactly
  6 results, end-effector-most joint first: position 0 holds the result of joint 5
  (motor 6), position 1 that of joint 4, and so on down to position 5 for joint 0
  (motor 1).
\<close>

theorem six_results_end_effector_first:
  assumes "spec_valid d"
  shows "\<exists>rs. performCalculations d = Results rs \<and> length rs = 6 \<and>
           rs ! 0 = spec_result d 5 \<and> rs ! 1 = spec_result d 4 \<and>
           rs ! 2 = spec_result d 3 \<and> rs ! 3 = spec_result d 2 \<and>
           rs ! 4 = spec_result d 1 \<and> rs ! 5 = spec_result d 0"
  using assms by (simp add: performCalculations_valid)

theorem six_results_end_effector_first_witness:
  "spec_valid example_input \<and>
   (\<exists>rs. performCalculations example_input = Results rs \<and> length rs = 6 \<and>
      rs ! 0 = spec_result example_input 5 \<and> rs ! 1 = spec_result example_input 4 \<and>
      rs ! 2 = spec_result example_input 3 \<and> rs ! 3 = spec_result example_input 2 \<and>
      rs ! 4 = spec_result example_input 1 \<and> rs ! 5 = spec_result example_input 0)"
proof -
  have v: "spec_valid example_input"
    by (simp add: spec_valid_def example_input_def spec_link_ok_def spec_motor_ok_def)
  from six_results_end_effector_first [OF v] v show ?thesis by simp
qed

text \<open>
  Claim C5. For every input that passes validation and every joint \<open>j\<close>, the call
  succeeds (a zero gear ratio or a zero rpm is no failure), \<open>T_before\<close> of joint \<open>j\<close>
  is \<open>T_total / gearRatio[j]\<close> when the gear ratio is not 0 and 0 when it is, and \<open>P\<close> is
  \<open>T_before * rpm[j] * 1000 / 9550\<close> when the rpm is not 0 and 0 when it is.
\<close>

theorem gearing_and_power:
  assumes "spec_valid d" and "j < 6"
  shows "\<exists>rs. performCalculations d = Results rs \<and>
           T_before (rs ! (5 - j)) =
             (if gearRatio (motors d ! j) \<noteq> 0
              then T_total (rs ! (5 - j)) / gearRatio (motors d ! j) else 0) \<and>
           P (rs ! (5 - j)) =
             (if rpm (motors d ! j) \<noteq> 0
              then T_before (rs ! (5 - j)) * rpm (motors d ! j) * 1000 / 9550 else 0)"
proof -
  have r: "performCalculations d = Results (map (spec_result d) [5, 4, 3, 2, 1, 0])"
    using assms(1) by (rule performCalculations_valid)
  have n: "map (spec_result d) [5, 4, 3, 2, 1, 0] ! (5 - j) = spec_result d j"
    using assms(2) by (rule nth_joint)
  show ?thesis
    unfolding r
    by (rule exI [of _ "map (spec_result d) [5, 4, 3, 2, 1, 0]"], unfold n)
       (simp add: spec_result_def spec_power_def spec_torqueBeforeGearing_def)
qed

theorem gearing_and_power_witness:
  "spec_valid (uniform_input 1 0) \<and> (0 :: nat) < 6 \<and>
   gearRatio (motors (uniform_input 1 0) ! 0) = 0 \<and> rpm (motors (uniform_input 1 0) ! 0) = 0 \<and>
   (\<exists>rs. performCalculations (uniform_input 1 0) = Results rs \<and>
      T_before (rs ! 5) = 0 \<and> P (rs ! 5) = 0)"
proof -
  have v: "spec_valid (uniform_input 1 0)"
    by (simp add: uniform_input_valid)
  have z: "gearRatio (motors (uniform_input 1 0) ! 0) = 0" "rpm (motors (uniform_input 1 0) ! 0) = 0"
    by (simp_all add: uniform_input_def idle_motor_def)
  from gearing_and_power [OF v, of 0] show ?thesis
    by (simp add: v z)
qed

text \<open>
  Claim C6. For every input that passes validation and every joint \<open>j\<close>, the three
  safety-factor fields are the plain fields multiplied by the safety factor of joint \<open>j\<close>.
\<close>

theorem safety_factor_scaling:
  assumes "spec_valid d" and "j < 6"
  shows "\<exists>rs. performCalculations d = Results rs \<and>
           T_sf (rs ! (5 - j)) = safetyFactor (motors d ! j) * T_total (rs ! (5 - j)) \<and>
           T_before_sf (rs ! (5 - j)) = safetyFactor (motors d ! j) * T_before (rs ! (5 - j)) \<and>
           P_sf (rs ! (5 - j)) = safetyFactor (motors d ! j) * P (rs ! (5 - j))"
proof -
  have r: "performCalculations d = Results (map (spec_result d) [5, 4, 3, 2, 1, 0])"
    using assms(1) by (rule performCalculations_valid)
  have n: "map (spec_result d) [5, 4, 3, 2, 1, 0] ! (5 - j) = spec_result d j"
    using assms(2) by (rule nth_joint)
  show ?thesis
    unfolding r
    by (rule exI [of _ "map (spec_result d) [5, 4, 3, 2, 1, 0]"], unfold n)
       (simp add: spec_result_def)
qed

theorem safety_factor_scaling_witness:
  "spec_valid example_input \<and> (3 :: nat) < 6 \<and>
   (\<exists>rs. performCalculations example_input = Results rs \<and>
      T_sf (rs ! 2) = 1.5 * T_total (rs ! 2) \<and>
      T_before_sf (rs ! 2) = 1.5 * T_before (rs ! 2) \<and>
      P_sf (rs ! 2) = 1.5 * P (rs ! 2))"
proof -
  have v: "spec_valid example_input"
    by (simp add: example_input_valid)
  have sf: "safetyFactor (motors example_input ! 3) = 1.5"
    by (simp add: example_input_def)
  from safety_factor_scaling [OF v, of 3] show ?thesis
    by (simp add: v sf)
qed


text \<open>
  Claim C3. Validation is fail-fast in the specification's order (payload mass, density,
  number of links, number of motors, then for each index in turn the link length and radius
  and the motor's mass, body length, pivot position, rpm, gear ratio and safety factor):
  for an input that violates a constraint, the outcome is the error object, with no result
  list, whose message is that of the first violated check; the message names the field and
  the 1-based number of the link or motor, and no other check has the same message.
\<close>

theorem validation_fail_fast:
  assumes "\<not> spec_valid d"
  shows "\<exists>c. first_violation d = Some c \<and>
           performCalculations d = ErrorObject (error_message c) \<and>
           (\<forall>c' \<in> fst ` set (spec_checks d). error_message c' = error_message c \<longrightarrow> c' = c)"
proof -
  from assms obtain c where c: "first_violation d = Some c"
    using not_valid_first_violation by blast
  then have "c \<in> fst ` set (spec_checks d)"
    unfolding first_violation_def by (rule first_failing_mem)
  then have "\<forall>c' \<in> fst ` set (spec_checks d). error_message c' = error_message c \<longrightarrow> c' = c"
    using error_message_inj spec_checks_index by blast
  with c performCalculations_error [OF c] show ?thesis by blast
qed

theorem validation_fail_fast_witness:
  "\<not> spec_valid (uniform_input 1 (- 1)) \<and>
   first_violation (uniform_input 1 (- 1)) = Some (MotorPivotPosition 0) \<and>
   performCalculations (uniform_input 1 (- 1)) =
     ErrorObject ''Motor 1 pivot position cannot be negative''"
proof -
  have n: "\<not> spec_valid (uniform_input 1 (- 1))"
    by (simp add: spec_valid_def uniform_input_def spec_motor_ok_def idle_motor_def)
  have f: "first_violation (uniform_input 1 (- 1)) = Some (MotorPivotPosition 0)"
    by (simp add: first_violation_def spec_checks_def index_checks_def uniform_input_def
        unit_link_def idle_motor_def upt_rec)
  from validation_fail_fast [OF n] show ?thesis
    by (simp add: n f digit_char_def)
qed

text \<open>
  Claim C4. An input with 5 links (payload mass and density not negative) is rejected with
  a message that contains \<open>6 links\<close>. An input in which motor \<open>i\<close> has safety factor
  0.9, every check before that one being satisfied, is rejected with the message
  \<open>Motor i+1 safety factor must be at least 1\<close>, which contains \<open>safety factor\<close> and
  the 1-based number of the motor.
\<close>

theorem five_links_and_low_safety_factor:
  "(0 \<le> m_payload d5 \<and> 0 \<le> density d5 \<and> length (links d5) = 5 \<longrightarrow>
      performCalculations d5 = ErrorObject ''Exactly 6 links are required'' \<and>
      sublist ''6 links'' ''Exactly 6 links are required'')
   \<and>
   (0 \<le> m_payload d \<and> 0 \<le> density d \<and> length (links d) = 6 \<and> length (motors d) = 6 \<and>
    i < 6 \<and>
    list_all spec_link_ok (take i (links d)) \<and> list_all spec_motor_ok (take i (motors d)) \<and>
    spec_link_ok (links d ! i) \<and>
    0 \<le> mass (motors d ! i) \<and> 0 \<le> bodyLength (motors d ! i) \<and>
    0 \<le> pivotPosition (motors d ! i) \<and> 0 \<le> rpm (motors d ! i) \<and>
    0 \<le> gearRatio (motors d ! i) \<and> safetyFactor (motors d ! i) = 0.9 \<longrightarrow>
      (\<exists>msg. performCalculations d = ErrorObject msg \<and>
         msg = ''Motor '' @ string_of_nat (i + 1) @ '' safety factor must be at least 1'' \<and>
         sublist ''safety factor'' msg \<and> sublist (''Motor '' @ string_of_nat (i + 1)) msg))"
proof (intro conjI impI)
  assume a: "0 \<le> m_payload d5 \<and> 0 \<le> density d5 \<and> length (links d5) = 5"
  then have "first_violation d5 = Some LinkCount"
    by (simp add: first_violation_def spec_checks_def)
  then show "performCalculations d5 = ErrorObject ''Exactly 6 links are required''"
    using performCalculations_error by fastforce
  have "''Exactly 6 links are required'' = ''Exactly '' @ ''6 links'' @ '' are required''"
    by simp
  then show "sublist ''6 links'' ''Exactly 6 links are required''"
    unfolding sublist_def by blast
next
  assume a: "0 \<le> m_payload d \<and> 0 \<le> density d \<and> length (links d) = 6 \<and> length (motors d) = 6 \<and>
    i < 6 \<and>
    list_all spec_link_ok (take i (links d)) \<and> list_all spec_motor_ok (take i (motors d)) \<and>
    spec_link_ok (links d ! i) \<and>
    0 \<le> mass (motors d ! i) \<and> 0 \<le> bodyLength (motors d ! i) \<and>
    0 \<le> pivotPosition (motors d ! i) \<and> 0 \<le> rpm (motors d ! i) \<and>
    0 \<le> gearRatio (motors d ! i) \<and> safetyFactor (motors d ! i) = 0.9"
  have earlier: "list_all snd (index_checks d k)" if "k < i" for k
  proof -
    have "links d ! k \<in> set (take i (links d))" "motors d ! k \<in> set (take i (motors d))"
      using that a by (auto simp add: in_set_conv_nth intro!: exI [of _ k])
    then have "spec_link_ok (links d ! k)" "spec_motor_ok (motors d ! k)"
      using a by (auto simp add: list_all_iff)
    then show ?thesis
      by (simp add: index_checks_def spec_link_ok_def spec_motor_ok_def)
  qed
  have "first_failing (index_checks d i) = Some (MotorSafetyFactor i)"
    using a by (simp add: index_checks_def spec_link_ok_def)
  then have "first_violation d = Some (MotorSafetyFactor i)"
    using a earlier by (intro first_violation_at_index) auto
  then have "performCalculations d =
      ErrorObject (''Motor '' @ string_of_nat (i + 1) @ '' safety factor must be at least 1'')"
    using performCalculations_error by fastforce
  moreover have "sublist ''safety factor''
      (''Motor '' @ string_of_nat (i + 1) @ '' safety factor must be at least 1'')"
  proof -
    have "''Motor '' @ string_of_nat (i + 1) @ '' safety factor must be at least 1'' =
      (''Motor '' @ string_of_nat (i + 1) @ '' '') @ ''safety factor'' @ '' must be at least 1''"
      by simp
    then show ?thesis unfolding sublist_def by blast
  qed
  ultimately show "\<exists>msg. performCalculations d = ErrorObject msg \<and>
         msg = ''Motor '' @ string_of_nat (i + 1) @ '' safety factor must be at least 1'' \<and>
         sublist ''safety factor'' msg \<and> sublist (''Motor '' @ string_of_nat (i + 1)) msg"
    by (simp del: string_of_nat.simps)
qed


theorem five_links_and_low_safety_factor_witness:
  "length (links five_link_input) = 5 \<and>
   performCalculations five_link_input = ErrorObject ''Exactly 6 links are required'' \<and>
   safetyFactor (motors low_safety_factor_input ! 2) = 0.9 \<and>
   performCalculations low_safety_factor_input =
     ErrorObject ''Motor 3 safety factor must be at least 1''"
proof -
  have h5: "0 \<le> m_payload five_link_input \<and> 0 \<le> density five_link_input \<and>
      length (links five_link_input) = 5"
    by (simp add: five_link_input_def example_input_def)
  have h: "0 \<le> m_payload low_safety_factor_input \<and> 0 \<le> density low_safety_factor_input \<and>
    length (links low_safety_factor_input) = 6 \<and> length (motors low_safety_factor_input) = 6 \<and>
    (2 :: nat) < 6 \<and>
    list_all spec_link_ok (take 2 (links low_safety_factor_input)) \<and>
    list_all spec_motor_ok (take 2 (motors low_safety_factor_input)) \<and>
    spec_link_ok (links low_safety_factor_input ! 2) \<and>
    0 \<le> mass (motors low_safety_factor_input ! 2) \<and>
    0 \<le> bodyLength (motors low_safety_factor_input ! 2) \<and>
    0 \<le> pivotPosition (motors low_safety_factor_input ! 2) \<and>
    0 \<le> rpm (motors low_safety_factor_input ! 2) \<and>
    0 \<le> gearRatio (motors low_safety_factor_input ! 2) \<and>
    safetyFactor (motors low_safety_factor_input ! 2) = 0.9"
    by (simp add: low_safety_factor_input_def example_input_def spec_link_ok_def
        spec_motor_ok_def eval_nat_numeral)
  from five_links_and_low_safety_factor [of five_link_input low_safety_factor_input 2] h5 h
  show ?thesis
    by (simp add: digit_char_def)
qed




text \<open>
  Claim C9. Validation puts no upper bound on a pivot position and does not relate it to the
  link lengths: in a valid input, any pivot position may be replaced by any value that is
  not negative and the call still succeeds; and there is an input that passes validation,
  with the pivot of motor 6 strictly beyond the total arm length \<open>S[5]\<close>, for which
  \<open>T_total\<close> of the first result (joint 5) is strictly negative.
\<close>

theorem pivot_beyond_tip_negative_torque:
  "(spec_valid d \<and> k < 6 \<and> 0 \<le> p \<longrightarrow>
      (\<exists>rs. performCalculations
               (d\<lparr>motors := (motors d)[k := (motors d ! k)\<lparr>pivotPosition := p\<rparr>]\<rparr>)
             = Results rs))
   \<and>
   (\<exists>d'. spec_valid d' \<and> spec_S d' 5 < pivot d' 5 \<and>
      (\<exists>rs. performCalculations d' = Results rs \<and> T_total (rs ! 0) < 0))"
proof (intro conjI impI)
  assume "spec_valid d \<and> k < 6 \<and> 0 \<le> p"
  then have "spec_valid (d\<lparr>motors := (motors d)[k := (motors d ! k)\<lparr>pivotPosition := p\<rparr>]\<rparr>)"
    by (simp add: spec_valid_set_pivot)
  then show "\<exists>rs. performCalculations
               (d\<lparr>motors := (motors d)[k := (motors d ! k)\<lparr>pivotPosition := p\<rparr>]\<rparr>)
             = Results rs"
    by (simp add: performCalculations_valid)
next
  have v: "spec_valid (uniform_input 1 7)"
    by (simp add: uniform_input_valid)
  have "spec_S (uniform_input 1 7) 5 < pivot (uniform_input 1 7) 5"
    unfolding uniform_input_S5 by (simp add: pivot_def uniform_input_def idle_motor_def)
  moreover have "T_total (map (spec_result (uniform_input 1 7)) [5, 4, 3, 2, 1, 0] ! 0) < 0"
    by (simp add: spec_result_def uniform_input_torque)
  ultimately show "\<exists>d'. spec_valid d' \<and> spec_S d' 5 < pivot d' 5 \<and>
      (\<exists>rs. performCalculations d' = Results rs \<and> T_total (rs ! 0) < 0)"
    using v performCalculations_valid [OF v] by blast
qed

theorem pivot_beyond_tip_negative_torque_witness:
  "spec_valid (uniform_input 1 0) \<and> (5 :: nat) < 6 \<and> (0 :: real) \<le> 7 \<and>
   (uniform_input 1 0)\<lparr>motors := (motors (uniform_input 1 0))
       [5 := (motors (uniform_input 1 0) ! 5)\<lparr>pivotPosition := 7\<rparr>]\<rparr>
     = \<lparr>m_payload = 1, density = 0,
        links = [unit_link, unit_link, unit_link, unit_link, unit_link, unit_link],
        motors = [idle_motor 0, idle_motor 0, idle_motor 0, idle_motor 0, idle_motor 0,
                  idle_motor 7]\<rparr> \<and>
   (\<exists>rs. performCalculations
      \<lparr>m_payload = 1, density = 0,
        links = [unit_link, unit_link, unit_link, unit_link, unit_link, unit_link],
        motors = [idle_motor 0, idle_motor 0, idle_motor 0, idle_motor 0, idle_motor 0,
                  idle_motor 7]\<rparr> = Results rs) \<and>
   spec_S (uniform_input 1 7) 5 = 6 \<and> pivot (uniform_input 1 7) 5 = 7 \<and>
   T_total (results_of (performCalculations (uniform_input 1 7)) ! 0) = - 9.80665"
proof -
  have n: "spec_S (uniform_input 1 7) 5 = 6" "pivot (uniform_input 1 7) 5 = 7"
    "T_total (results_of (performCalculations (uniform_input 1 7)) ! 0) = - 9.80665"
    by (simp_all add: uniform_input_S5 uniform_input_valid performCalculations_valid
        spec_result_def uniform_input_torque)
      (simp add: pivot_def uniform_input_def idle_motor_def)
  have v: "spec_valid (uniform_input 1 0)"
    by (simp add: uniform_input_valid)
  have e: "(uniform_input 1 0)\<lparr>motors := (motors (uniform_input 1 0))
       [5 := (motors (uniform_input 1 0) ! 5)\<lparr>pivotPosition := 7\<rparr>]\<rparr>
     = \<lparr>m_payload = 1, density = 0,
        links = [unit_link, unit_link, unit_link, unit_link, unit_link, unit_link],
        motors = [idle_motor 0, idle_motor 0, idle_motor 0, idle_motor 0, idle_motor 0,
                  idle_motor 7]\<rparr>"
    by (simp add: uniform_input_def idle_motor_def)
  from pivot_beyond_tip_negative_torque [of "uniform_input 1 0" 5 7] v
  show ?thesis
    unfolding e using n by simp
qed


text \<open>
  Claim C10. An input with density exactly 0 that satisfies all other constraints is
  accepted; every link weight is then 0, and \<open>T_total\<close> of each joint consists of the
  payload term and the motor terms only. The density check rejects strictly negative values
  only: with a payload mass that is not negative, the outcome is the error
  \<open>Density must be positive\<close> exactly when the density is below 0.
\<close>

theorem zero_density_accepted:
  "(density d = 0 \<and> 0 \<le> m_payload d \<and> length (links d) = 6 \<and> length (motors d) = 6 \<and>
    list_all spec_link_ok (links d) \<and> list_all spec_motor_ok (motors d) \<and> j < 6 \<longrightarrow>
      (\<exists>rs. performCalculations d = Results rs \<and>
         (\<forall>i. spec_W_link d i = 0) \<and>
         T_total (rs ! (5 - j)) =
           spec_W_payload d * (spec_S d 5 - pivot d j)
           + (\<Sum>k = Suc j..<6.
                spec_W_motor d k * (pivot d k + bodyLength (motors d ! k) / 2 - pivot d j))))
   \<and>
   (0 \<le> m_payload d' \<longrightarrow>
      (performCalculations d' = ErrorObject ''Density must be positive'') = (density d' < 0))"
proof (intro conjI impI)
  assume a: "density d = 0 \<and> 0 \<le> m_payload d \<and> length (links d) = 6 \<and> length (motors d) = 6 \<and>
    list_all spec_link_ok (links d) \<and> list_all spec_motor_ok (motors d) \<and> j < 6"
  then have v: "spec_valid d" by (simp add: spec_valid_def)
  have r: "performCalculations d = Results (map (spec_result d) [5, 4, 3, 2, 1, 0])"
    using v by (rule performCalculations_valid)
  have "j < 6" using a by simp
  then have n: "map (spec_result d) [5, 4, 3, 2, 1, 0] ! (5 - j) = spec_result d j"
    by (rule nth_joint)
  have w: "\<forall>i. spec_W_link d i = 0"
    using a by (simp add: spec_W_link_def)
  have "T_total (map (spec_result d) [5, 4, 3, 2, 1, 0] ! (5 - j)) =
           spec_W_payload d * (spec_S d 5 - pivot d j)
           + (\<Sum>k = Suc j..<6.
                spec_W_motor d k * (pivot d k + bodyLength (motors d ! k) / 2 - pivot d j))"
    unfolding n by (simp add: spec_result_def spec_torqueTotal_def w del: spec_S.simps)
  with r w show "\<exists>rs. performCalculations d = Results rs \<and>
         (\<forall>i. spec_W_link d i = 0) \<and>
         T_total (rs ! (5 - j)) =
           spec_W_payload d * (spec_S d 5 - pivot d j)
           + (\<Sum>k = Suc j..<6.
                spec_W_motor d k * (pivot d k + bodyLength (motors d ! k) / 2 - pivot d j))"
    by blast
next
  assume "0 \<le> m_payload d'"
  then show "(performCalculations d' = ErrorObject ''Density must be positive'') = (density d' < 0)"
    by (rule density_message_iff)
qed

theorem zero_density_accepted_witness:
  "density (example_input\<lparr>density := 0\<rparr>) = 0 \<and>
   (\<exists>rs. performCalculations (example_input\<lparr>density := 0\<rparr>) = Results rs \<and>
      T_total (rs ! 0) = 9.80665 * 5 * (1.8 - 1.7)) \<and>
   0 \<le> m_payload (example_input\<lparr>density := - 1\<rparr>) \<and>
   density (example_input\<lparr>density := - 1\<rparr>) < 0 \<and>
   performCalculations (example_input\<lparr>density := - 1\<rparr>) = ErrorObject ''Density must be positive''"
proof -
  let ?d = "example_input\<lparr>density := 0\<rparr>"
  have h: "density ?d = 0 \<and> 0 \<le> m_payload ?d \<and> length (links ?d) = 6 \<and> length (motors ?d) = 6 \<and>
    list_all spec_link_ok (links ?d) \<and> list_all spec_motor_ok (motors ?d) \<and> (5 :: nat) < 6"
    by (simp add: example_input_def spec_link_ok_def spec_motor_ok_def)
  have h': "0 \<le> m_payload (example_input\<lparr>density := - 1\<rparr>)"
    "density (example_input\<lparr>density := - 1\<rparr>) < 0"
    by (simp_all add: example_input_def)
  have S5: "spec_S ?d 5 = 1.8"
    by (simp add: eval_nat_numeral example_input_def)
  have W: "spec_W_payload ?d = 9.80665 * 5" "pivot ?d 5 = 1.7"
    by (simp_all add: spec_W_payload_def pivot_def example_input_def)
  from zero_density_accepted [of ?d 5 "example_input\<lparr>density := - 1\<rparr>"] h h'
  show ?thesis
    by (auto simp add: S5 W sum_below_6 simp del: spec_S.simps)
qed


end
